theory Spec2Isabelle
  imports Complex_Main "HOL-Library.AList" "HOL-Library.Product_Lexorder" "HOL-Library.Sublist"
begin

section \<open>Credit risk dashboard (model\_1.py)\<close>

text \<open>
  The script loads a borrower table, checks that seven columns are present, derives three
  columns (\<open>income_to_loan_ratio\<close>, \<open>risk_score\<close>, \<open>risk_level\<close>), filters the
  rows by region and offers a borrower for review. Every statement of the script that
  the properties below depend on is a function here, in the script's order.
\<close>

subsection \<open>Numbers of a column\<close>

text \<open>
  A numeric column holds float64 values. A finite one is \<open>Fin q\<close> with the rational
  \<open>q\<close>, where \<open>Fin 0\<close> is the zero of positive sign (also the integer 0 of an int64
  column); \<open>NZero\<close> is the negative zero \<open>-0.0\<close>, which a file can hold and which
  compares equal to 0; the three special values of the format are \<open>PInf\<close>, \<open>NInf\<close>
  and \<open>NaN\<close>. The special values and the sign of a zero follow IEEE 754, which is what
  pandas and numpy compute with: a division by zero raises nothing, it gives an infinity
  whose sign is the product of the signs of both operands, or \<open>NaN\<close> for \<open>0 / 0\<close>.

  Arithmetic on finite values is exact here: the rounding of each operation to the nearest
  float64 is left out. A row whose exact raw score lies on a threshold can therefore be
  labelled differently by the script (age 27, income 1000, loan amount 10000: 0.3 here,
  0.30000000000000004 in float64). The inputs that the evaluations below compute on are
  away from the thresholds or exact in float64 as well.
\<close>

datatype fl = Fin rat | NZero | PInf | NInf | NaN

fun fdiv :: "fl \<Rightarrow> fl \<Rightarrow> fl" where
  "fdiv NaN y = NaN"
| "fdiv x NaN = NaN"
| "fdiv (Fin a) (Fin b) =
     (if b = 0 then (if a = 0 then NaN else if 0 < a then PInf else NInf)
      else if a = 0 then (if 0 < b then Fin 0 else NZero)
      else Fin (a / b))"
| "fdiv (Fin a) NZero = (if a = 0 then NaN else if 0 < a then NInf else PInf)"
| "fdiv NZero (Fin b) = (if b = 0 then NaN else if 0 < b then NZero else Fin 0)"
| "fdiv NZero NZero = NaN"
| "fdiv (Fin a) PInf = (if a < 0 then NZero else Fin 0)"
| "fdiv (Fin a) NInf = (if a < 0 then Fin 0 else NZero)"
| "fdiv NZero PInf = NZero"
| "fdiv NZero NInf = Fin 0"
| "fdiv PInf (Fin b) = (if 0 \<le> b then PInf else NInf)"
| "fdiv PInf NZero = NInf"
| "fdiv NInf (Fin b) = (if 0 \<le> b then NInf else PInf)"
| "fdiv NInf NZero = PInf"
| "fdiv x y = NaN"

fun fmul :: "fl \<Rightarrow> fl \<Rightarrow> fl" where
  "fmul NaN y = NaN"
| "fmul x NaN = NaN"
| "fmul (Fin a) (Fin b) =
     (if a * b = 0 then (if a < 0 \<or> b < 0 then NZero else Fin 0) else Fin (a * b))"
| "fmul NZero (Fin b) = (if b < 0 then Fin 0 else NZero)"
| "fmul (Fin a) NZero = (if a < 0 then Fin 0 else NZero)"
| "fmul NZero NZero = Fin 0"
| "fmul (Fin a) PInf = (if a = 0 then NaN else if 0 < a then PInf else NInf)"
| "fmul (Fin a) NInf = (if a = 0 then NaN else if 0 < a then NInf else PInf)"
| "fmul PInf (Fin b) = (if b = 0 then NaN else if 0 < b then PInf else NInf)"
| "fmul NInf (Fin b) = (if b = 0 then NaN else if 0 < b then NInf else PInf)"
| "fmul NZero y = NaN"
| "fmul x NZero = NaN"
| "fmul PInf PInf = PInf"
| "fmul NInf NInf = PInf"
| "fmul PInf NInf = NInf"
| "fmul NInf PInf = NInf"

fun fadd :: "fl \<Rightarrow> fl \<Rightarrow> fl" where
  "fadd NaN y = NaN"
| "fadd x NaN = NaN"
| "fadd (Fin a) (Fin b) = Fin (a + b)"
| "fadd NZero NZero = NZero"
| "fadd NZero (Fin b) = Fin b"
| "fadd (Fin a) NZero = Fin a"
| "fadd PInf NInf = NaN"
| "fadd NInf PInf = NaN"
| "fadd PInf y = PInf"
| "fadd x PInf = PInf"
| "fadd NInf y = NInf"
| "fadd x NInf = NInf"

text \<open>
  The comparisons \<open><=\<close>, \<open><\<close> and \<open>==\<close> of floats: false whenever a side is
  \<open>NaN\<close>, and the two zeros compare equal.
\<close>

fun fle :: "fl \<Rightarrow> fl \<Rightarrow> bool" where
  "fle NaN y = False"
| "fle x NaN = False"
| "fle (Fin a) (Fin b) = (a \<le> b)"
| "fle NZero (Fin b) = (0 \<le> b)"
| "fle (Fin a) NZero = (a \<le> 0)"
| "fle NZero NZero = True"
| "fle NInf y = True"
| "fle x PInf = True"
| "fle x y = False"

fun flt :: "fl \<Rightarrow> fl \<Rightarrow> bool" where
  "flt NaN y = False"
| "flt x NaN = False"
| "flt (Fin a) (Fin b) = (a < b)"
| "flt NZero (Fin b) = (0 < b)"
| "flt (Fin a) NZero = (a < 0)"
| "flt NZero NZero = False"
| "flt PInf y = False"
| "flt x NInf = False"
| "flt x y = True"



text \<open>\<open>np.maximum\<close> and \<open>np.minimum\<close> hand a \<open>NaN\<close> on.\<close>

definition np_maximum :: "fl \<Rightarrow> fl \<Rightarrow> fl" where
  "np_maximum x y = (if x = NaN \<or> y = NaN then NaN else if fle x y then y else x)"

definition np_minimum :: "fl \<Rightarrow> fl \<Rightarrow> fl" where
  "np_minimum x y = (if x = NaN \<or> y = NaN then NaN else if fle x y then x else y)"

text \<open>\<open>np.clip(x, a_min, a_max)\<close> is \<open>minimum(maximum(x, a_min), a_max)\<close>.\<close>

definition np_clip :: "fl \<Rightarrow> fl \<Rightarrow> fl \<Rightarrow> fl" where
  "np_clip x a_min a_max = np_minimum (np_maximum x a_min) a_max"

text \<open>
  \<open>pd.cut(x, bins, labels)\<close> with its defaults \<open>right=True, include_lowest=False\<close>:
  the bins are the intervals \<open>(b0, b1], (b1, b2], ...\<close>, open on the left and closed on
  the right; a value in none of them (and \<open>NaN\<close>) gets no label.
\<close>

fun cut_label :: "rat list \<Rightarrow> string list \<Rightarrow> fl \<Rightarrow> string option" where
  "cut_label (lo # hi # bins) (l # labels) x =
     (if flt (Fin lo) x \<and> fle x (Fin hi) then Some l else cut_label (hi # bins) labels x)"
| "cut_label bins labels x = None"

subsection \<open>Tables\<close>

text \<open>
  A cell is a number, a string, or a category of \<open>pd.cut\<close> (\<open>Cat None\<close> is the
  missing category). A row is its index label and its cells by column name, in column
  order; a table is the list of its column names and the list of its rows.
\<close>

datatype cell = Num fl | Str string | Cat "string option"

type_synonym row = "(string \<times> cell) list"

record dataframe =
  columns :: "string list"
  rows :: "(nat \<times> row) list"

datatype error =
    MissingColumns "string list"
  | FeatureEngineeringFailed string
  | KeyError string
  | TypeError

definition and_then :: "error + 'a \<Rightarrow> ('a \<Rightarrow> error + 'b) \<Rightarrow> error + 'b" where
  "and_then m f = (case m of Inl e \<Rightarrow> Inl e | Inr x \<Rightarrow> f x)"

text \<open>A cell that a row does not hold reads as \<open>NaN\<close>, pandas' missing value.\<close>

definition lookup :: "row \<Rightarrow> string \<Rightarrow> cell" where
  "lookup r c = (case map_of r c of Some v \<Rightarrow> v | None \<Rightarrow> Num NaN)"

text \<open>\<open>df[c]\<close> raises \<open>KeyError\<close> when the table has no column \<open>c\<close>.\<close>

definition get_col :: "dataframe \<Rightarrow> string \<Rightarrow> error + cell list" where
  "get_col df c =
     (if c \<in> set (columns df) then Inr (map (\<lambda>(i, r). lookup r c) (rows df))
      else Inl (KeyError c))"

text \<open>
  \<open>df[c] = series\<close> overwrites the column \<open>c\<close>, or appends it as the last column.
  Every series assigned by the script is computed from columns of the same table, so it
  has one value per row, in row order.
\<close>

definition set_col :: "dataframe \<Rightarrow> string \<Rightarrow> cell list \<Rightarrow> dataframe" where
  "set_col df c vs =
     \<lparr>columns = (if c \<in> set (columns df) then columns df else columns df @ [c]),
      rows = map2 (\<lambda>(i, r) v. (i, AList.update c v r)) (rows df) vs\<rparr>"

text \<open>
  Arithmetic on series. A column that holds anything but numbers has the dtype
  \<open>object\<close> (or is categorical), and the operation raises \<open>TypeError\<close>.
\<close>

fun is_num :: "cell \<Rightarrow> bool" where
  "is_num (Num x) = True"
| "is_num c = False"

fun num_of :: "cell \<Rightarrow> fl" where
  "num_of (Num x) = x"
| "num_of c = NaN"

definition series_div :: "cell list \<Rightarrow> cell list \<Rightarrow> error + cell list" where
  "series_div xs ys =
     (if list_all is_num xs \<and> list_all is_num ys
      then Inr (map2 (\<lambda>x y. Num (fdiv (num_of x) (num_of y))) xs ys)
      else Inl TypeError)"

definition series_add :: "cell list \<Rightarrow> cell list \<Rightarrow> error + cell list" where
  "series_add xs ys =
     (if list_all is_num xs \<and> list_all is_num ys
      then Inr (map2 (\<lambda>x y. Num (fadd (num_of x) (num_of y))) xs ys)
      else Inl TypeError)"

definition series_mul :: "cell list \<Rightarrow> rat \<Rightarrow> error + cell list" where
  "series_mul xs k =
     (if list_all is_num xs then Inr (map (\<lambda>x. Num (fmul (num_of x) (Fin k))) xs)
      else Inl TypeError)"

definition series_clip :: "cell list \<Rightarrow> rat \<Rightarrow> rat \<Rightarrow> error + cell list" where
  "series_clip xs a_min a_max =
     (if list_all is_num xs
      then Inr (map (\<lambda>x. Num (np_clip (num_of x) (Fin a_min) (Fin a_max))) xs)
      else Inl TypeError)"

definition pd_cut :: "cell list \<Rightarrow> rat list \<Rightarrow> string list \<Rightarrow> error + cell list" where
  "pd_cut xs bins labels =
     (if list_all is_num xs then Inr (map (\<lambda>x. Cat (cut_label bins labels (num_of x))) xs)
      else Inl TypeError)"

subsection \<open>Column validation (lines 29-30 and 44-47)\<close>

definition required_columns :: "string list" where
  "required_columns =
     [''gender'', ''age'', ''income'', ''loan_amount'', ''occupation'', ''loan_history'',
      ''region'']"

definition missing_cols :: "dataframe \<Rightarrow> string list" where
  "missing_cols df = filter (\<lambda>col. col \<notin> set (columns df)) required_columns"

text \<open>\<open>st.error(...)\<close> followed by \<open>st.stop()\<close> ends the run with the error.\<close>

definition column_validation :: "dataframe \<Rightarrow> error + dataframe" where
  "column_validation df =
     (if missing_cols df \<noteq> [] then Inl (MissingColumns (missing_cols df)) else Inr df)"

subsection \<open>Feature engineering (lines 50-58)\<close>

text \<open>
  The three assignments, each reading the columns it names from the table as the
  assignments before it left it. The \<open>try\<close> catches \<open>KeyError\<close> only, reports it
  and stops; a \<open>TypeError\<close> is not caught.
\<close>

definition feature_engineering_body :: "dataframe \<Rightarrow> error + dataframe" where
  "feature_engineering_body df =
     and_then (get_col df ''income'') (\<lambda>income.
     and_then (get_col df ''loan_amount'') (\<lambda>loan_amount.
     and_then (series_div income loan_amount) (\<lambda>ratio.
     let df1 = set_col df ''income_to_loan_ratio'' ratio in
     and_then (get_col df1 ''income_to_loan_ratio'') (\<lambda>ratio1.
     and_then (series_mul ratio1 0.3) (\<lambda>lhs.
     and_then (get_col df1 ''age'') (\<lambda>age.
     and_then (series_mul age 0.01) (\<lambda>rhs.
     and_then (series_add lhs rhs) (\<lambda>raw.
     and_then (series_clip raw 0 1) (\<lambda>score.
     let df2 = set_col df1 ''risk_score'' score in
     and_then (get_col df2 ''risk_score'') (\<lambda>score1.
     and_then (pd_cut score1 [0, 0.3, 0.7, 1] [''Low'', ''Medium'', ''High'']) (\<lambda>level.
     Inr (set_col df2 ''risk_level'' level))))))))))))"

definition feature_engineering :: "dataframe \<Rightarrow> error + dataframe" where
  "feature_engineering df =
     (case feature_engineering_body df of
        Inl (KeyError c) \<Rightarrow> Inl (FeatureEngineeringFailed c)
      | Inl e \<Rightarrow> Inl e
      | Inr df' \<Rightarrow> Inr df')"

text \<open>
  Read row by row, the three assignments compute the following from a row \<open>r\<close> of the
  loaded table (lemma \<open>feature_engineering_rows\<close> below proves that the column-wise
  script above does exactly this to every row).
\<close>

definition derived_row :: "row \<Rightarrow> row" where
  "derived_row r =
     (let r1 = AList.update ''income_to_loan_ratio''
                 (Num (fdiv (num_of (lookup r ''income'')) (num_of (lookup r ''loan_amount'')))) r;
          r2 = AList.update ''risk_score''
                 (Num (np_clip
                    (fadd (fmul (num_of (lookup r1 ''income_to_loan_ratio'')) (Fin 0.3))
                          (fmul (num_of (lookup r1 ''age'')) (Fin 0.01)))
                    (Fin 0) (Fin 1))) r1
      in AList.update ''risk_level''
           (Cat (cut_label [0, 0.3, 0.7, 1] [''Low'', ''Medium'', ''High'']
              (num_of (lookup r2 ''risk_score'')))) r2)"

subsection \<open>Region filter (lines 62-65)\<close>

text \<open>
  \<open>Series.unique()\<close> keeps the first occurrence of every value, in order of appearance.
\<close>

definition unique :: "'a list \<Rightarrow> 'a list" where
  "unique xs = rev (remdups (rev xs))"

definition isin :: "cell list \<Rightarrow> cell list \<Rightarrow> bool list" where
  "isin xs vals = map (\<lambda>x. x \<in> set vals) xs"

text \<open>\<open>df[keep]\<close> keeps the rows whose entry in the boolean series is true, with their index labels.\<close>

definition boolean_index :: "dataframe \<Rightarrow> bool list \<Rightarrow> dataframe" where
  "boolean_index df keep = df\<lparr>rows := map fst (filter snd (zip (rows df) keep))\<rparr>"

text \<open>
  The multiselect offers the regions of the table and returns the list the user chose;
  the table is filtered only \<open>if selected_regions:\<close>, that is when the list is not empty.
\<close>

definition region_filter :: "cell list \<Rightarrow> dataframe \<Rightarrow> error + dataframe" where
  "region_filter selected_regions df =
     and_then (get_col df ''region'') (\<lambda>region.
     let options = unique region in
     if selected_regions \<noteq> []
     then and_then (get_col df ''region'') (\<lambda>region.
            Inr (boolean_index df (isin region selected_regions)))
     else Inr df)"

text \<open>The rows the specification expects of a filter by the region set \<open>R\<close>.\<close>

definition rows_in_regions :: "cell list \<Rightarrow> dataframe \<Rightarrow> (nat \<times> row) list" where
  "rows_in_regions R df = filter (\<lambda>(i, r). lookup r ''region'' \<in> set R) (rows df)"

subsection \<open>The run up to the filtered table (lines 44-65)\<close>

definition dashboard :: "dataframe \<Rightarrow> cell list \<Rightarrow> error + dataframe" where
  "dashboard df selected_regions =
     and_then (column_validation df) (\<lambda>df.
     and_then (feature_engineering df) (\<lambda>df.
     region_filter selected_regions df))"

subsection \<open>Risk level filter (lines 165-168)\<close>

definition level_filter :: "string \<Rightarrow> dataframe \<Rightarrow> error + dataframe" where
  "level_filter selected_level df =
     (if selected_level = ''All'' then Inr df
      else and_then (get_col df ''risk_level'') (\<lambda>level.
             Inr (boolean_index df (map (\<lambda>x. x = Cat (Some selected_level)) level))))"

subsection \<open>Loan decision recommendation (lines 141-157)\<close>

text \<open>
  \<open>sort_values(by=col, ascending=False)\<close> on a numeric column: greatest first, \<open>NaN\<close>
  last. The script sorts by \<open>risk_score\<close> only, which the derivation makes numeric; a
  cell that is no number sorts with the \<open>NaN\<close>s. Rows of equal key keep their order
  here (pandas' default quicksort promises no order among them).
\<close>

definition desc_rank :: "fl \<Rightarrow> nat \<times> rat" where
  "desc_rank x =
     (case x of PInf \<Rightarrow> (0, 0) | Fin q \<Rightarrow> (1, - q) | NZero \<Rightarrow> (1, 0) | NInf \<Rightarrow> (2, 0)
      | NaN \<Rightarrow> (3, 0))"

definition sort_values_desc :: "dataframe \<Rightarrow> string \<Rightarrow> error + dataframe" where
  "sort_values_desc df col =
     and_then (get_col df col) (\<lambda>keys.
     Inr (df\<lparr>rows := map snd (sort_key (\<lambda>(k, x). desc_rank (num_of k)) (zip keys (rows df)))\<rparr>))"

definition head :: "nat \<Rightarrow> dataframe \<Rightarrow> dataframe" where
  "head n df = df\<lparr>rows := take n (rows df)\<rparr>"

definition index_tolist :: "dataframe \<Rightarrow> nat list" where
  "index_tolist df = map fst (rows df)"

text \<open>\<open>list.index(x)\<close>: the first position of \<open>x\<close>; the script calls it only for a member.\<close>

fun list_index :: "'a list \<Rightarrow> 'a \<Rightarrow> nat option" where
  "list_index [] x = None"
| "list_index (y # ys) x = (if y = x then Some 0 else map_option Suc (list_index ys x))"

datatype message = Warning string | Error string

text \<open>
  What the block shows: the warning or error (if any), \<open>default_position\<close> (\<open>None\<close>
  is Python's \<open>None\<close>), and the select box with its options and preselected position
  (\<open>None\<close> when no select box is rendered).
\<close>

record review =
  shown :: "message option"
  default_position :: "nat option"
  selectbox :: "(nat list \<times> nat) option"

definition recommendation_selector :: "dataframe \<Rightarrow> error + review" where
  "recommendation_selector df =
     and_then (sort_values_desc df ''risk_score'') (\<lambda>sorted.
     let top_indices = index_tolist (head 5 sorted);
         select_options = index_tolist df;
         (msg, default_position) =
           (if top_indices \<noteq> [] \<and> hd top_indices \<in> set select_options
            then (None, list_index select_options (hd top_indices))
            else if select_options \<noteq> []
            then (Some (Warning ''No high-risk borrowers available in the current filter. Showing first borrower instead.''),
                  Some 0)
            else (Some (Error ''No borrowers available to review. Please adjust your filters.''),
                  None))
     in Inr \<lparr>shown = msg, default_position = default_position,
             selectbox = (if select_options \<noteq> [] \<and> default_position \<noteq> None
                          then Some (select_options, the default_position) else None)\<rparr>)"

subsection \<open>A table of five borrowers\<close>

text \<open>
  A small table to evaluate the script on: a regular borrower (row 0), a loan amount of
  zero with a positive income (row 1) and with an income of zero (row 2), a negative
  income (row 3), and a borrower who differs from row 0 by age only (row 4).
\<close>

definition borrower :: "rat \<Rightarrow> rat \<Rightarrow> rat \<Rightarrow> string \<Rightarrow> row" where
  "borrower age income loan_amount region =
     [(''gender'', Str ''F''), (''age'', Num (Fin age)), (''income'', Num (Fin income)),
      (''loan_amount'', Num (Fin loan_amount)), (''occupation'', Str ''Trader''),
      (''loan_history'', Str ''Good''), (''region'', Str region)]"

definition borrowers :: dataframe where
  "borrowers =
     \<lparr>columns = required_columns,
      rows = [(0, borrower 40 3000 10000 ''Accra''),
              (1, borrower 30 5000 0 ''Kumasi''),
              (2, borrower 40 0 0 ''Kumasi''),
              (3, borrower 30 (- 2000) 1000 ''Tamale''),
              (4, borrower 50 3000 10000 ''Accra'')]\<rparr>"

definition with_derived :: "row \<Rightarrow> fl \<Rightarrow> fl \<Rightarrow> string option \<Rightarrow> row" where
  "with_derived r ratio score level =
     r @ [(''income_to_loan_ratio'', Num ratio), (''risk_score'', Num score),
          (''risk_level'', Cat level)]"

definition borrowers_derived :: dataframe where
  "borrowers_derived =
     \<lparr>columns = required_columns @ [''income_to_loan_ratio'', ''risk_score'', ''risk_level''],
      rows = [(0, with_derived (borrower 40 3000 10000 ''Accra'') (Fin 0.3) (Fin 0.49) (Some ''Medium'')),
              (1, with_derived (borrower 30 5000 0 ''Kumasi'') PInf (Fin 1) (Some ''High'')),
              (2, with_derived (borrower 40 0 0 ''Kumasi'') NaN NaN None),
              (3, with_derived (borrower 30 (- 2000) 1000 ''Tamale'') (Fin (- 2)) (Fin 0) None),
              (4, with_derived (borrower 50 3000 10000 ''Accra'') (Fin 0.3) (Fin 0.59) (Some ''Medium''))]\<rparr>"

text \<open>The rows of \<open>borrowers_derived\<close> in the region Accra: none of them is high risk.\<close>

definition accra_borrowers :: dataframe where
  "accra_borrowers = borrowers_derived\<lparr>rows := [rows borrowers_derived ! 0, rows borrowers_derived ! 4]\<rparr>"

text \<open>A file that lacks five of the seven required columns.\<close>

definition incomplete_table :: dataframe where
  "incomplete_table =
     \<lparr>columns = [''name'', ''age'', ''region''],
      rows = [(0, [(''name'', Str ''Ama''), (''age'', Num (Fin 40)), (''region'', Str ''Accra'')])]\<rparr>"




section \<open>Properties\<close>

subsection \<open>The derivation, row by row\<close>

lemma and_then_Inr: "and_then m f = Inr y \<longleftrightarrow> (\<exists>x. m = Inr x \<and> f x = Inr y)"
  by (cases m) (simp_all add: and_then_def)

lemma map2_same: "map2 f (map g xs) (map h xs) = map (\<lambda>x. f (g x) (h x)) xs"
  by (induction xs) simp_all

lemma map2_right_map: "map2 f xs (map h xs) = map (\<lambda>x. f x (h x)) xs"
  by (induction xs) simp_all

lemma lookup_update: "lookup (AList.update c v r) c' = (if c' = c then v else lookup r c')"
  by (simp add: lookup_def update_conv')

lemma get_col_Inr:
  "get_col df c = Inr xs \<longleftrightarrow> c \<in> set (columns df) \<and> xs = map (\<lambda>x. lookup (snd x) c) (rows df)"
  by (auto simp: get_col_def split_def)

lemma set_col_rows:
  "rows (set_col df c (map h (rows df))) =
     map (\<lambda>x. (fst x, AList.update c (h x) (snd x))) (rows df)"
  by (simp add: set_col_def map2_right_map) (simp add: split_def)

lemma set_col_columns: "set (columns (set_col df c vs)) = insert c (set (columns df))"
  by (auto simp: set_col_def)

lemma series_div_Inr:
  "series_div (map f xs) (map g xs) = Inr zs \<longleftrightarrow>
     (\<forall>x\<in>set xs. is_num (f x) \<and> is_num (g x)) \<and>
     zs = map (\<lambda>x. Num (fdiv (num_of (f x)) (num_of (g x)))) xs"
  by (auto simp: series_div_def map2_same list_all_iff)

lemma series_add_Inr:
  "series_add (map f xs) (map g xs) = Inr zs \<longleftrightarrow>
     (\<forall>x\<in>set xs. is_num (f x) \<and> is_num (g x)) \<and>
     zs = map (\<lambda>x. Num (fadd (num_of (f x)) (num_of (g x)))) xs"
  by (auto simp: series_add_def map2_same list_all_iff)

lemma series_mul_Inr:
  "series_mul (map f xs) k = Inr zs \<longleftrightarrow>
     (\<forall>x\<in>set xs. is_num (f x)) \<and> zs = map (\<lambda>x. Num (fmul (num_of (f x)) (Fin k))) xs"
  by (auto simp: series_mul_def list_all_iff)

lemma series_clip_Inr:
  "series_clip (map f xs) lo hi = Inr zs \<longleftrightarrow>
     (\<forall>x\<in>set xs. is_num (f x)) \<and> zs = map (\<lambda>x. Num (np_clip (num_of (f x)) (Fin lo) (Fin hi))) xs"
  by (auto simp: series_clip_def list_all_iff)

lemma pd_cut_Inr:
  "pd_cut (map f xs) bins labels = Inr zs \<longleftrightarrow>
     (\<forall>x\<in>set xs. is_num (f x)) \<and> zs = map (\<lambda>x. Cat (cut_label bins labels (num_of (f x)))) xs"
  by (auto simp: pd_cut_def list_all_iff)

lemma feature_engineering_body_rows:
  assumes body: "feature_engineering_body df = Inr df'"
  shows "rows df' = map (\<lambda>x. (fst x, derived_row (snd x))) (rows df)"
    and "\<forall>x\<in>set (rows df). is_num (lookup (snd x) ''income'') \<and>
           is_num (lookup (snd x) ''loan_amount'') \<and> is_num (lookup (snd x) ''age'')"
    and "set (columns df') = set (columns df) \<union> {''income_to_loan_ratio'', ''risk_score'', ''risk_level''}"
    and "{''income'', ''loan_amount'', ''age''} \<subseteq> set (columns df)"
proof -
  from body obtain income loan ratio ratio1 lhs age rhs raw score score1 level where
    g1: "get_col df ''income'' = Inr income" and
    g2: "get_col df ''loan_amount'' = Inr loan" and
    d: "series_div income loan = Inr ratio" and
    g3: "get_col (set_col df ''income_to_loan_ratio'' ratio) ''income_to_loan_ratio'' = Inr ratio1" and
    m1: "series_mul ratio1 0.3 = Inr lhs" and
    g4: "get_col (set_col df ''income_to_loan_ratio'' ratio) ''age'' = Inr age" and
    m2: "series_mul age 0.01 = Inr rhs" and
    a: "series_add lhs rhs = Inr raw" and
    c: "series_clip raw 0 1 = Inr score" and
    g5: "get_col (set_col (set_col df ''income_to_loan_ratio'' ratio) ''risk_score'' score) ''risk_score'' = Inr score1" and
    k: "pd_cut score1 [0, 0.3, 0.7, 1] [''Low'', ''Medium'', ''High''] = Inr level" and
    res: "df' = set_col (set_col (set_col df ''income_to_loan_ratio'' ratio) ''risk_score'' score) ''risk_level'' level"
    by (auto simp: feature_engineering_body_def and_then_Inr Let_def)
  define df1 where "df1 = set_col df ''income_to_loan_ratio'' ratio"
  define df2 where "df2 = set_col df1 ''risk_score'' score"
  define f1 where "f1 = (\<lambda>r. AList.update ''income_to_loan_ratio''
      (Num (fdiv (num_of (lookup r ''income'')) (num_of (lookup r ''loan_amount'')))) r)"
  define f2 where "f2 = (\<lambda>r. AList.update ''risk_score''
      (Num (np_clip (fadd (fmul (num_of (lookup r ''income_to_loan_ratio'')) (Fin 0.3))
                          (fmul (num_of (lookup r ''age'')) (Fin 0.01))) (Fin 0) (Fin 1))) r)"
  define f3 where "f3 = (\<lambda>r. AList.update ''risk_level''
      (Cat (cut_label [0, 0.3, 0.7, 1] [''Low'', ''Medium'', ''High''] (num_of (lookup r ''risk_score'')))) r)"
  have income: "income = map (\<lambda>x. lookup (snd x) ''income'') (rows df)"
    and loan: "loan = map (\<lambda>x. lookup (snd x) ''loan_amount'') (rows df)"
    and cols: "''income'' \<in> set (columns df)" "''loan_amount'' \<in> set (columns df)"
    using g1 g2 by (simp_all add: get_col_Inr)
  have nums: "\<forall>x\<in>set (rows df). is_num (lookup (snd x) ''income'') \<and> is_num (lookup (snd x) ''loan_amount'')"
    and ratio: "ratio = map (\<lambda>x. Num (fdiv (num_of (lookup (snd x) ''income'')) (num_of (lookup (snd x) ''loan_amount'')))) (rows df)"
    using d unfolding income loan by (simp_all add: series_div_Inr)
  have r1: "rows df1 = map (\<lambda>x. (fst x, f1 (snd x))) (rows df)"
    unfolding df1_def ratio f1_def by (simp add: set_col_rows)
  have ratio1: "ratio1 = map (\<lambda>x. lookup (snd x) ''income_to_loan_ratio'') (rows df1)"
    and age: "age = map (\<lambda>x. lookup (snd x) ''age'') (rows df1)"
    and age_col: "''age'' \<in> set (columns df1)"
    using g3 g4 unfolding df1_def by (simp_all add: get_col_Inr)
  have lhs: "lhs = map (\<lambda>x. Num (fmul (num_of (lookup (snd x) ''income_to_loan_ratio'')) (Fin 0.3))) (rows df1)"
    using m1 unfolding ratio1 by (simp add: series_mul_Inr)
  have age_num: "\<forall>x\<in>set (rows df1). is_num (lookup (snd x) ''age'')"
    and rhs: "rhs = map (\<lambda>x. Num (fmul (num_of (lookup (snd x) ''age'')) (Fin 0.01))) (rows df1)"
    using m2 unfolding age by (simp_all add: series_mul_Inr)
  have raw: "raw = map (\<lambda>x. Num (fadd (fmul (num_of (lookup (snd x) ''income_to_loan_ratio'')) (Fin 0.3))
                          (fmul (num_of (lookup (snd x) ''age'')) (Fin 0.01)))) (rows df1)"
    using a unfolding lhs rhs by (simp add: series_add_Inr)
  have score: "score = map (\<lambda>x. Num (np_clip (fadd (fmul (num_of (lookup (snd x) ''income_to_loan_ratio'')) (Fin 0.3))
                          (fmul (num_of (lookup (snd x) ''age'')) (Fin 0.01))) (Fin 0) (Fin 1))) (rows df1)"
    using c unfolding raw by (simp add: series_clip_Inr)
  have r2: "rows df2 = map (\<lambda>x. (fst x, f2 (snd x))) (rows df1)"
    unfolding df2_def score f2_def by (simp add: set_col_rows)
  have score1: "score1 = map (\<lambda>x. lookup (snd x) ''risk_score'') (rows df2)"
    using g5 unfolding df2_def df1_def by (simp add: get_col_Inr)
  have level: "level = map (\<lambda>x. Cat (cut_label [0, 0.3, 0.7, 1] [''Low'', ''Medium'', ''High''] (num_of (lookup (snd x) ''risk_score'')))) (rows df2)"
    using k unfolding score1 by (simp add: pd_cut_Inr)
  have r3: "rows df' = map (\<lambda>x. (fst x, f3 (snd x))) (rows df2)"
    unfolding res df2_def[symmetric] df1_def[symmetric] level f3_def by (simp add: set_col_rows)
  have comp: "f3 (f2 (f1 r)) = derived_row r" for r
    by (simp add: f1_def f2_def f3_def derived_row_def Let_def)
  show "rows df' = map (\<lambda>x. (fst x, derived_row (snd x))) (rows df)"
    by (simp add: r3 r2 r1 o_def comp)
  have "\<forall>x\<in>set (rows df). is_num (lookup (snd x) ''age'')"
    using age_num by (simp add: r1 f1_def lookup_update)
  with nums show "\<forall>x\<in>set (rows df). is_num (lookup (snd x) ''income'') \<and>
           is_num (lookup (snd x) ''loan_amount'') \<and> is_num (lookup (snd x) ''age'')"
    by blast
  show "set (columns df') = set (columns df) \<union> {''income_to_loan_ratio'', ''risk_score'', ''risk_level''}"
    unfolding res by (simp add: set_col_columns) blast
  show "{''income'', ''loan_amount'', ''age''} \<subseteq> set (columns df)"
    using cols age_col unfolding df1_def by (simp add: set_col_columns)
qed


lemma feature_engineering_Inr:
  "feature_engineering df = Inr df' \<longleftrightarrow> feature_engineering_body df = Inr df'"
  by (auto simp: feature_engineering_def split: sum.splits error.splits)

lemma derived_row_ratio:
  "lookup (derived_row r) ''income_to_loan_ratio'' =
     Num (fdiv (num_of (lookup r ''income'')) (num_of (lookup r ''loan_amount'')))"
  by (simp add: derived_row_def Let_def lookup_update)

lemma derived_row_score:
  "lookup (derived_row r) ''risk_score'' =
     Num (np_clip (fadd (fmul (fdiv (num_of (lookup r ''income'')) (num_of (lookup r ''loan_amount''))) (Fin 0.3))
                        (fmul (num_of (lookup r ''age'')) (Fin 0.01))) (Fin 0) (Fin 1))"
  by (simp add: derived_row_def Let_def lookup_update)

lemma derived_row_level:
  "lookup (derived_row r) ''risk_level'' =
     Cat (cut_label [0, 0.3, 0.7, 1] [''Low'', ''Medium'', ''High'']
       (num_of (lookup (derived_row r) ''risk_score'')))"
  by (simp add: derived_row_def Let_def lookup_update)

lemma derived_row_other:
  "c \<noteq> ''income_to_loan_ratio'' \<Longrightarrow> c \<noteq> ''risk_score'' \<Longrightarrow> c \<noteq> ''risk_level'' \<Longrightarrow>
     lookup (derived_row r) c = lookup r c"
  by (simp add: derived_row_def Let_def lookup_update)

lemma is_num_conv: "is_num c \<longleftrightarrow> (\<exists>x. c = Num x)"
  by (cases c) simp_all

text \<open>Every row of the derived table, cell by cell.\<close>

lemma derived_cells:
  assumes fe: "feature_engineering df = Inr df'" and row: "(i, r) \<in> set (rows df')"
  obtains income loan_amount age where
    "lookup r ''income'' = Num income" "lookup r ''loan_amount'' = Num loan_amount"
    "lookup r ''age'' = Num age"
    "lookup r ''income_to_loan_ratio'' = Num (fdiv income loan_amount)"
    "lookup r ''risk_score'' =
       Num (np_clip (fadd (fmul (fdiv income loan_amount) (Fin 0.3)) (fmul age (Fin 0.01))) (Fin 0) (Fin 1))"
    "lookup r ''risk_level'' =
       Cat (cut_label [0, 0.3, 0.7, 1] [''Low'', ''Medium'', ''High'']
         (np_clip (fadd (fmul (fdiv income loan_amount) (Fin 0.3)) (fmul age (Fin 0.01))) (Fin 0) (Fin 1)))"
proof -
  from fe have body: "feature_engineering_body df = Inr df'"
    by (simp add: feature_engineering_Inr)
  from row feature_engineering_body_rows(1)[OF body]
  obtain x where x: "x \<in> set (rows df)" and r: "r = derived_row (snd x)"
    by auto
  from feature_engineering_body_rows(2)[OF body] x
  obtain income loan_amount age where
    n: "lookup (snd x) ''income'' = Num income" "lookup (snd x) ''loan_amount'' = Num loan_amount"
      "lookup (snd x) ''age'' = Num age"
    by (auto simp: is_num_conv)
  show thesis
  proof (rule that[of income loan_amount age])
    show "lookup r ''income'' = Num income" "lookup r ''loan_amount'' = Num loan_amount"
      "lookup r ''age'' = Num age"
      using n by (simp_all add: r derived_row_other)
    show "lookup r ''income_to_loan_ratio'' = Num (fdiv income loan_amount)"
      using n by (simp add: r derived_row_ratio)
    show s: "lookup r ''risk_score'' =
       Num (np_clip (fadd (fmul (fdiv income loan_amount) (Fin 0.3)) (fmul age (Fin 0.01))) (Fin 0) (Fin 1))"
      using n by (simp add: r derived_row_score)
    show "lookup r ''risk_level'' =
       Cat (cut_label [0, 0.3, 0.7, 1] [''Low'', ''Medium'', ''High'']
         (np_clip (fadd (fmul (fdiv income loan_amount) (Fin 0.3)) (fmul age (Fin 0.01))) (Fin 0) (Fin 1)))"
      using s unfolding r by (simp add: derived_row_level)
  qed
qed

lemma np_clip_Fin: "np_clip (Fin q) (Fin 0) (Fin 1) = Fin (min (max q 0) 1)"
  by (simp add: np_clip_def np_maximum_def np_minimum_def min_def max_def)




subsection \<open>The script on the table of five borrowers\<close>

lemma and_then_simps: "and_then (Inr x) f = f x" "and_then (Inl e) f = Inl e"
  by (simp_all add: and_then_def)

lemma derive_borrowers: "feature_engineering borrowers = Inr borrowers_derived"
  by (simp add: feature_engineering_def feature_engineering_body_def and_then_simps get_col_def
      set_col_def series_div_def series_mul_def series_add_def series_clip_def pd_cut_def
      np_clip_def np_maximum_def np_minimum_def lookup_def borrowers_def borrowers_derived_def
      borrower_def with_derived_def required_columns_def Let_def)

lemma filter_accra: "dashboard borrowers [Str ''Accra''] = Inr accra_borrowers"
  by (simp add: dashboard_def column_validation_def missing_cols_def derive_borrowers and_then_simps
     region_filter_def get_col_def boolean_index_def isin_def accra_borrowers_def)
    (simp add: borrowers_def required_columns_def borrowers_derived_def lookup_def with_derived_def borrower_def)

lemma select_accra: "recommendation_selector accra_borrowers =
   Inr \<lparr>shown = None, default_position = Some 1, selectbox = Some ([0, 4], 1)\<rparr>"
  by (simp add: recommendation_selector_def sort_values_desc_def and_then_simps get_col_def head_def index_tolist_def
      accra_borrowers_def borrowers_derived_def required_columns_def lookup_def with_derived_def borrower_def desc_rank_def Let_def)


lemma rows_borrowers_derived:
  "(0, with_derived (borrower 40 3000 10000 ''Accra'') (Fin 0.3) (Fin 0.49) (Some ''Medium''))
     \<in> set (rows borrowers_derived)"
  "(1, with_derived (borrower 30 5000 0 ''Kumasi'') PInf (Fin 1) (Some ''High''))
     \<in> set (rows borrowers_derived)"
  "(2, with_derived (borrower 40 0 0 ''Kumasi'') NaN NaN None)
     \<in> set (rows borrowers_derived)"
  "(3, with_derived (borrower 30 (- 2000) 1000 ''Tamale'') (Fin (- 2)) (Fin 0) None)
     \<in> set (rows borrowers_derived)"
  "(4, with_derived (borrower 50 3000 10000 ''Accra'') (Fin 0.3) (Fin 0.59) (Some ''Medium''))
     \<in> set (rows borrowers_derived)"
  by (simp_all add: borrowers_derived_def)

lemma lookup_with_derived:
  "lookup (with_derived (borrower a i l reg) ratio score level) ''age'' = Num (Fin a)"
  "lookup (with_derived (borrower a i l reg) ratio score level) ''income'' = Num (Fin i)"
  "lookup (with_derived (borrower a i l reg) ratio score level) ''loan_amount'' = Num (Fin l)"
  "lookup (with_derived (borrower a i l reg) ratio score level) ''region'' = Str reg"
  "lookup (with_derived (borrower a i l reg) ratio score level) ''income_to_loan_ratio'' = Num ratio"
  "lookup (with_derived (borrower a i l reg) ratio score level) ''risk_score'' = Num score"
  "lookup (with_derived (borrower a i l reg) ratio score level) ''risk_level'' = Cat level"
  by (simp_all add: lookup_def with_derived_def borrower_def)

subsection \<open>C1: the level of a score of zero\<close>

text \<open>
  C1 states that \<open>risk_level\<close> is \<open>Low\<close> iff \<open>risk_score <= 0.3\<close>, so that every score
  in [0, 1] has one of the three labels. The script clips negative raw scores to exactly
  0 and then bins with \<open>pd.cut\<close>, whose lowest bin \<open>(0, 0.3]\<close> is open at 0: a borrower
  of age 30 with income -2000 and loan amount 1000 has the raw score -0.3, the score
  0 (which is at most 0.3) and no label at all.
\<close>

theorem risk_level_of_zero_score:
  "feature_engineering borrowers = Inr borrowers_derived \<and>
   (3, with_derived (borrower 30 (- 2000) 1000 ''Tamale'') (Fin (- 2)) (Fin 0) None)
     \<in> set (rows borrowers_derived) \<and>
   lookup (with_derived (borrower 30 (- 2000) 1000 ''Tamale'') (Fin (- 2)) (Fin 0) None) ''risk_score''
     = Num (Fin 0) \<and>
   fle (Fin 0) (Fin 0.3) \<and>
   lookup (with_derived (borrower 30 (- 2000) 1000 ''Tamale'') (Fin (- 2)) (Fin 0) None) ''risk_level''
     = Cat None"
  by (simp add: derive_borrowers rows_borrowers_derived lookup_with_derived)

subsection \<open>C2: a row that is put in no bucket\<close>

text \<open>
  C2 states that for every row the derivation computes the ratio as income over loan amount
  and the score as \<open>clip(ratio * 0.3 + age * 0.01, 0, 1)\<close>, and buckets the score into
  \<open>Low\<close>, \<open>Medium\<close> or \<open>High\<close>. For the borrower of age 30 with income -2000 and loan
  amount 1000 the two formulas are what the script computes (ratio -2, score 0), but the
  row is put in none of the three buckets: \<open>pd.cut\<close> leaves the score 0 unlabelled. This
  is the defect of C1, seen from the derivation.
\<close>

theorem derived_row_without_bucket:
  "feature_engineering borrowers = Inr borrowers_derived \<and>
   (3, with_derived (borrower 30 (- 2000) 1000 ''Tamale'') (Fin (- 2)) (Fin 0) None)
     \<in> set (rows borrowers_derived) \<and>
   fdiv (Fin (- 2000)) (Fin 1000) = Fin (- 2) \<and>
   np_clip (fadd (fmul (Fin (- 2)) (Fin 0.3)) (fmul (Fin 30) (Fin 0.01))) (Fin 0) (Fin 1) = Fin 0 \<and>
   lookup (with_derived (borrower 30 (- 2000) 1000 ''Tamale'') (Fin (- 2)) (Fin 0) None)
     ''risk_level''
     \<notin> {Cat (Some ''Low''), Cat (Some ''Medium''), Cat (Some ''High'')}"
  by (simp add: derive_borrowers rows_borrowers_derived lookup_with_derived np_clip_Fin)

subsection \<open>C3: the range of the score\<close>





subsection \<open>C4: the region filter\<close>

lemma filter_zip_map: "map fst (filter snd (zip xs (map P xs))) = filter P xs"
  by (induction xs) simp_all

lemma boolean_index_isin:
  "rows (boolean_index df (isin (map (\<lambda>(i, r). lookup r c) (rows df)) R)) =
     filter (\<lambda>(i, r). lookup r c \<in> set R) (rows df)"
proof -
  have "isin (map (\<lambda>(i, r). lookup r c) (rows df)) R =
      map (\<lambda>x. case x of (i, r) \<Rightarrow> lookup r c \<in> set R) (rows df)"
    by (simp add: isin_def split_def)
  then show ?thesis
    by (simp add: boolean_index_def filter_zip_map)
qed

text \<open>
  C4 states that the filter by a region set \<open>R\<close>, the empty set included, leaves exactly
  the rows whose region is in \<open>R\<close>. With no region selected the script does not filter
  at all (\<open>if selected_regions:\<close>): the table keeps its five rows, where the claim
  expects none.
\<close>

theorem region_filter_empty_counterexample:
  "region_filter [] borrowers_derived = Inr borrowers_derived \<and>
   rows_in_regions [] borrowers_derived = [] \<and>
   length (rows borrowers_derived) = 5"
  by (simp add: region_filter_def get_col_def and_then_simps rows_in_regions_def)
     (simp add: borrowers_derived_def required_columns_def)

text \<open>
  C4 as amended: for a table with a \<open>region\<close> column and a non-empty selection \<open>R\<close>
  the result is the table with exactly the rows whose region is in \<open>R\<close>, in their
  order and unchanged; with the empty selection the result is the table itself.
\<close>

theorem region_filter_rows:
  assumes "''region'' \<in> set (columns df)"
  shows "region_filter R df =
    Inr (if R = [] then df else df\<lparr>rows := rows_in_regions R df\<rparr>)"
proof (cases "R = []")
  case True
  with assms show ?thesis
    by (simp add: region_filter_def get_col_def and_then_simps)
next
  case False
  have "boolean_index df (isin (map (\<lambda>(i, r). lookup r ''region'') (rows df)) R) =
      df\<lparr>rows := rows_in_regions R df\<rparr>"
    using boolean_index_isin[of df "''region''" R]
    by (simp add: boolean_index_def rows_in_regions_def)
  with False assms show ?thesis
    by (simp add: region_filter_def get_col_def and_then_simps)
qed

theorem region_filter_rows_witness:
  "''region'' \<in> set (columns borrowers_derived) \<and>
   region_filter [Str ''Accra''] borrowers_derived = Inr accra_borrowers"
proof -
  have col: "''region'' \<in> set (columns borrowers_derived)"
    by (simp add: borrowers_derived_def required_columns_def)
  have "borrowers_derived\<lparr>rows := rows_in_regions [Str ''Accra''] borrowers_derived\<rparr> = accra_borrowers"
    by (simp add: rows_in_regions_def accra_borrowers_def)
       (simp add: borrowers_derived_def lookup_with_derived)
  with region_filter_rows[OF col, of "[Str ''Accra'']"] col show ?thesis
    by simp
qed

subsection \<open>C5: missing columns\<close>

text \<open>
  C5: a loaded table that lacks at least one of the seven required columns ends the run at
  the column validation, before the derivation, the filter and the review block, and
  the error carries exactly the missing names (each once, in the order of
  \<open>required_columns\<close>; \<open>st.error\<close> prints them joined by commas).
\<close>

theorem missing_columns_halt:
  assumes "\<not> set required_columns \<subseteq> set (columns df)"
  shows "column_validation df = Inl (MissingColumns (missing_cols df)) \<and>
    dashboard df R = Inl (MissingColumns (missing_cols df)) \<and>
    and_then (dashboard df R) recommendation_selector = Inl (MissingColumns (missing_cols df)) \<and>
    set (missing_cols df) = set required_columns - set (columns df) \<and>
    distinct (missing_cols df)"
proof -
  have "set (missing_cols df) = set required_columns - set (columns df)"
    by (auto simp: missing_cols_def)
  moreover from this assms have "missing_cols df \<noteq> []"
    by auto
  moreover have "distinct (missing_cols df)"
    by (simp add: missing_cols_def required_columns_def)
  ultimately show ?thesis
    by (simp add: column_validation_def dashboard_def and_then_simps)
qed

theorem missing_columns_halt_witness:
  "\<not> set required_columns \<subseteq> set (columns incomplete_table) \<and>
   dashboard incomplete_table [] =
     Inl (MissingColumns [''gender'', ''income'', ''loan_amount'', ''occupation'', ''loan_history''])"
proof -
  have m: "missing_cols incomplete_table =
      [''gender'', ''income'', ''loan_amount'', ''occupation'', ''loan_history'']"
    by (simp add: missing_cols_def incomplete_table_def required_columns_def)
  have h: "\<not> set required_columns \<subseteq> set (columns incomplete_table)"
    by (simp add: incomplete_table_def required_columns_def)
  from missing_columns_halt[OF h, of "[]"] h show ?thesis
    by (simp add: m)
qed

subsection \<open>C6: the review block without high-risk borrowers\<close>

lemma no_high_in_accra:
  "level_filter ''High'' accra_borrowers = Inr (accra_borrowers\<lparr>rows := []\<rparr>)"
  by (simp add: level_filter_def get_col_def and_then_simps boolean_index_def)
     (simp add: accra_borrowers_def borrowers_derived_def required_columns_def lookup_with_derived)

lemma sorted_rows_of:
  assumes "sort_values_desc df c = Inr srt"
  shows "set (rows srt) = set (rows df)" and "length (rows srt) = length (rows df)"
proof -
  from assms obtain keys where k: "keys = map (\<lambda>(i, r). lookup r c) (rows df)"
    and s: "rows srt = map snd (sort_key (\<lambda>(k, x). desc_rank (num_of k)) (zip keys (rows df)))"
    by (auto simp: sort_values_desc_def and_then_Inr get_col_def split: if_splits)
  have len: "length keys = length (rows df)"
    by (simp add: k)
  show "set (rows srt) = set (rows df)"
    unfolding s using len by (simp add: map_snd_zip[symmetric] del: map_snd_zip)
       (metis len map_snd_zip set_map)
  show "length (rows srt) = length (rows df)"
    unfolding s using len by simp
qed

lemma list_index_member: "x \<in> set xs \<Longrightarrow> \<exists>n. list_index xs x = Some n"
  by (induction xs) auto

lemma selector_nonempty:
  assumes s: "sort_values_desc df ''risk_score'' = Inr srt" and ne: "rows df \<noteq> []"
  shows "recommendation_selector df =
    Inr \<lparr>shown = None,
         default_position = list_index (index_tolist df) (hd (index_tolist (head 5 srt))),
         selectbox = Some (index_tolist df,
           the (list_index (index_tolist df) (hd (index_tolist (head 5 srt)))))\<rparr>"
proof -
  note sr = sorted_rows_of[OF s]
  from ne have "rows srt \<noteq> []"
    using sr(2) by auto
  then have t: "index_tolist (head 5 srt) \<noteq> []"
    by (simp add: index_tolist_def head_def)
  then have "hd (index_tolist (head 5 srt)) \<in> set (index_tolist (head 5 srt))"
    by simp
  also have "\<dots> \<subseteq> fst ` set (rows srt)"
    by (auto simp: index_tolist_def head_def dest: in_set_takeD)
  also have "\<dots> = set (index_tolist df)"
    by (simp add: sr(1) index_tolist_def)
  finally have m: "hd (index_tolist (head 5 srt)) \<in> set (index_tolist df)" .
  from list_index_member[OF m] obtain n where
    n: "list_index (index_tolist df) (hd (index_tolist (head 5 srt))) = Some n" ..
  have o: "index_tolist df \<noteq> []"
    using ne by (simp add: index_tolist_def)
  show ?thesis
    by (simp add: recommendation_selector_def s and_then_simps Let_def t m o n)
qed

lemma selector_empty:
  assumes s: "sort_values_desc df ''risk_score'' = Inr srt" and e: "rows df = []"
  shows "recommendation_selector df =
    Inr \<lparr>shown = Some (Error ''No borrowers available to review. Please adjust your filters.''),
         default_position = None, selectbox = None\<rparr>"
proof -
  from e sorted_rows_of(2)[OF s] have "rows srt = []"
    by simp
  with e show ?thesis
    by (simp add: recommendation_selector_def s and_then_simps Let_def index_tolist_def head_def)
qed

text \<open>
  The first branch of the block is taken for every table that has a row: the top five are
  rows of the same table, so the first of them is always among the options. The warning
  branch (\<open>elif select_options:\<close>) is never reached.
\<close>

lemma recommendation_selector_shown:
  assumes "recommendation_selector df = Inr rv"
  shows "if rows df = []
    then shown rv = Some (Error ''No borrowers available to review. Please adjust your filters.'') \<and>
         default_position rv = None \<and> selectbox rv = None
    else shown rv = None \<and> selectbox rv \<noteq> None"
proof -
  from assms obtain srt where s: "sort_values_desc df ''risk_score'' = Inr srt"
    by (auto simp: recommendation_selector_def and_then_Inr)
  show ?thesis
  proof (cases "rows df = []")
    case True
    with selector_empty[OF s True] assms show ?thesis
      by auto
  next
    case False
    with selector_nonempty[OF s False] assms show ?thesis
      by auto
  qed
qed

text \<open>
  C6 states that with zero high-risk rows in a non-empty filtered dataset a warning is shown
  and the first borrower is the default selection. For the region Accra of the table the
  filtered dataset has two rows, none of them high risk; the block shows no warning and
  preselects position 1, the borrower with the higher score, not the first one.
\<close>

theorem no_warning_without_high_risk:
  "dashboard borrowers [Str ''Accra''] = Inr accra_borrowers \<and>
   length (rows accra_borrowers) = 2 \<and>
   level_filter ''High'' accra_borrowers = Inr (accra_borrowers\<lparr>rows := []\<rparr>) \<and>
   recommendation_selector accra_borrowers =
     Inr \<lparr>shown = None, default_position = Some 1, selectbox = Some ([0, 4], 1)\<rparr>"
  by (simp add: filter_accra no_high_in_accra select_accra) (simp add: accra_borrowers_def)

subsection \<open>C7: a loan amount of zero\<close>










subsection \<open>C8: the example row\<close>

text \<open>
  C8: a row with age 40, income 3000 and loan amount 10000 has the ratio 0.3, the score
  \<open>clip(0.3 * 0.3 + 40 * 0.01, 0, 1) = 0.49\<close> and the level \<open>Medium\<close>.
\<close>

theorem example_row:
  assumes "feature_engineering df = Inr df'" and "(i, r) \<in> set (rows df')"
    and "lookup r ''age'' = Num (Fin 40)" and "lookup r ''income'' = Num (Fin 3000)"
    and "lookup r ''loan_amount'' = Num (Fin 10000)"
  shows "lookup r ''income_to_loan_ratio'' = Num (Fin 0.3) \<and>
    lookup r ''risk_score'' = Num (Fin 0.49) \<and>
    lookup r ''risk_level'' = Cat (Some ''Medium'')"
proof -
  from assms(1,2) obtain x y z where c:
    "lookup r ''income'' = Num x" "lookup r ''loan_amount'' = Num y" "lookup r ''age'' = Num z"
    "lookup r ''income_to_loan_ratio'' = Num (fdiv x y)"
    "lookup r ''risk_score'' =
       Num (np_clip (fadd (fmul (fdiv x y) (Fin 0.3)) (fmul z (Fin 0.01))) (Fin 0) (Fin 1))"
    "lookup r ''risk_level'' =
       Cat (cut_label [0, 0.3, 0.7, 1] [''Low'', ''Medium'', ''High'']
         (np_clip (fadd (fmul (fdiv x y) (Fin 0.3)) (fmul z (Fin 0.01))) (Fin 0) (Fin 1)))"
    by (rule derived_cells)
  from c(1-3) assms(3-5) have xyz: "x = Fin 3000" "y = Fin 10000" "z = Fin 40"
    by simp_all
  show ?thesis
    unfolding c(4-6) xyz by (simp add: np_clip_Fin)
qed

theorem example_row_witness:
  "feature_engineering borrowers = Inr borrowers_derived \<and>
   (0, with_derived (borrower 40 3000 10000 ''Accra'') (Fin 0.3) (Fin 0.49) (Some ''Medium''))
     \<in> set (rows borrowers_derived) \<and>
   lookup (with_derived (borrower 40 3000 10000 ''Accra'') (Fin 0.3) (Fin 0.49) (Some ''Medium''))
     ''risk_level'' = Cat (Some ''Medium'')"
proof -
  let ?r = "with_derived (borrower 40 3000 10000 ''Accra'') (Fin 0.3) (Fin 0.49) (Some ''Medium'')"
  have l: "lookup ?r ''age'' = Num (Fin 40)" "lookup ?r ''income'' = Num (Fin 3000)"
    "lookup ?r ''loan_amount'' = Num (Fin 10000)"
    by (simp_all add: lookup_with_derived)
  from example_row[OF derive_borrowers rows_borrowers_derived(1) l]
  have "lookup ?r ''risk_level'' = Cat (Some ''Medium'')"
    by simp
  with derive_borrowers rows_borrowers_derived(1) show ?thesis
    by blast
qed

subsection \<open>C9: what the derivation and the filters leave unchanged\<close>

lemma boolean_index_subseq:
  "subseq (rows (boolean_index df keep)) (rows df)" "columns (boolean_index df keep) = columns df"
proof -
  have "subseq (map fst (filter snd (zip xs ks))) xs" for xs :: "(nat \<times> row) list" and ks
  proof (induction xs arbitrary: ks)
    case Nil
    then show ?case by simp
  next
    case (Cons x xs)
    then show ?case by (cases ks) auto
  qed
  then show "subseq (rows (boolean_index df keep)) (rows df)"
    by (simp add: boolean_index_def)
  show "columns (boolean_index df keep) = columns df"
    by (simp add: boolean_index_def)
qed

lemma region_filter_frame:
  assumes "region_filter R df = Inr df'"
  shows "columns df' = columns df \<and> subseq (rows df') (rows df)"
  using assms boolean_index_subseq
  by (auto simp: region_filter_def and_then_Inr Let_def split: if_splits)

lemma level_filter_frame:
  assumes "level_filter l df = Inr df'"
  shows "columns df' = columns df \<and> subseq (rows df') (rows df)"
  using assms boolean_index_subseq
  by (auto simp: level_filter_def and_then_Inr split: if_splits)

lemma required_not_derived:
  "c \<in> set required_columns \<Longrightarrow>
     c \<noteq> ''income_to_loan_ratio'' \<and> c \<noteq> ''risk_score'' \<and> c \<noteq> ''risk_level''"
  by (auto simp: required_columns_def)

lemma feature_engineering_frame:
  assumes "feature_engineering df = Inr df'"
  shows "list_all2 (\<lambda>x y. fst y = fst x \<and>
           (\<forall>c\<in>set required_columns. lookup (snd y) c = lookup (snd x) c)) (rows df) (rows df')"
    and "\<forall>c\<in>set required_columns. get_col df' c = get_col df c"
    and "length (rows df') = length (rows df)"
proof -
  from assms have body: "feature_engineering_body df = Inr df'"
    by (simp add: feature_engineering_Inr)
  note r = feature_engineering_body_rows(1)[OF body]
  note cols = feature_engineering_body_rows(3)[OF body]
  show "list_all2 (\<lambda>x y. fst y = fst x \<and>
           (\<forall>c\<in>set required_columns. lookup (snd y) c = lookup (snd x) c)) (rows df) (rows df')"
    unfolding r by (simp add: list_all2_map2 list_all2_same required_not_derived derived_row_other)
  show "length (rows df') = length (rows df)"
    by (simp add: r)
  show "\<forall>c\<in>set required_columns. get_col df' c = get_col df c"
  proof
    fix c assume c: "c \<in> set required_columns"
    note n = required_not_derived[OF c]
    have "c \<in> set (columns df') \<longleftrightarrow> c \<in> set (columns df)"
      using n by (simp add: cols)
    then show "get_col df' c = get_col df c"
      using n by (simp add: get_col_def r derived_row_other split_def)
  qed
qed

lemma region_accra: "region_filter [Str ''Accra''] borrowers_derived = Inr accra_borrowers"
  by (simp add: region_filter_def get_col_def and_then_simps boolean_index_def isin_def
        accra_borrowers_def)
     (simp add: borrowers_derived_def required_columns_def lookup_with_derived)

text \<open>
  C9: the derivation keeps the rows of the loaded table, in order and with their index
  labels, and the value of each of the seven original columns in every row (it only adds
  or overwrites the three derived columns); the region filter and the risk level filter
  keep the columns and return a subsequence of the rows they are given, each row as it
  was. Nothing else of the script assigns to the table.
\<close>

theorem derivation_frame:
  "(feature_engineering df = Inr df1 \<longrightarrow>
      length (rows df1) = length (rows df) \<and>
      list_all2 (\<lambda>x y. fst y = fst x \<and>
         (\<forall>c\<in>set required_columns. lookup (snd y) c = lookup (snd x) c)) (rows df) (rows df1) \<and>
      (\<forall>c\<in>set required_columns. get_col df1 c = get_col df c)) \<and>
   (region_filter R df1 = Inr df2 \<longrightarrow>
      columns df2 = columns df1 \<and> subseq (rows df2) (rows df1)) \<and>
   (level_filter l df2 = Inr df3 \<longrightarrow>
      columns df3 = columns df2 \<and> subseq (rows df3) (rows df2))"
  using feature_engineering_frame[of df df1] region_filter_frame[of R df1 df2]
    level_filter_frame[of l df2 df3]
  by blast

theorem derivation_frame_witness:
  "feature_engineering borrowers = Inr borrowers_derived \<and>
   region_filter [Str ''Accra''] borrowers_derived = Inr accra_borrowers \<and>
   level_filter ''High'' accra_borrowers = Inr (accra_borrowers\<lparr>rows := []\<rparr>) \<and>
   length (rows borrowers_derived) = length (rows borrowers) \<and>
   get_col borrowers_derived ''income'' = get_col borrowers ''income'' \<and>
   subseq (rows accra_borrowers) (rows borrowers_derived)"
proof -
  have f: "region_filter [Str ''Accra''] borrowers_derived = Inr accra_borrowers"
    by (rule region_accra)
  have "''income'' \<in> set required_columns"
    by (simp add: required_columns_def)
  with derivation_frame[of borrowers borrowers_derived "[Str ''Accra'']" accra_borrowers
      "''High''" "accra_borrowers\<lparr>rows := []\<rparr>"] derive_borrowers f no_high_in_accra
  show ?thesis
    by simp
qed

subsection \<open>C10: the score is monotone in age and in income\<close>





end
